theory Spec2Isabelle
  imports Main "HOL-Library.Word"
begin

section \<open>Status values\<close>

text \<open>
  \<^verbatim>\<open>tensorflow::Status\<close>: an error code and a message. \<^verbatim>\<open>Status::OK()\<close> has code
  \<open>OK\<close> and the empty message; \<^verbatim>\<open>errors::InvalidArgument(...)\<close> and
  \<^verbatim>\<open>errors::Internal(...)\<close> build a status from the concatenation of their arguments.
\<close>

datatype Code =
    OK | CANCELLED | UNKNOWN | INVALID_ARGUMENT | DEADLINE_EXCEEDED | NOT_FOUND
  | ALREADY_EXISTS | PERMISSION_DENIED | RESOURCE_EXHAUSTED | FAILED_PRECONDITION
  | ABORTED | OUT_OF_RANGE | UNIMPLEMENTED | INTERNAL | UNAVAILABLE | DATA_LOSS
  | UNAUTHENTICATED

record Status =
  code :: Code
  error_message :: string

definition Status_OK :: Status where
  "Status_OK = \<lparr>code = OK, error_message = []\<rparr>"

definition ok :: "Status \<Rightarrow> bool" where
  "ok s = (code s = OK)"

definition InvalidArgument :: "string \<Rightarrow> Status" where
  "InvalidArgument msg = \<lparr>code = INVALID_ARGUMENT, error_message = msg\<rparr>"

definition Internal :: "string \<Rightarrow> Status" where
  "Internal msg = \<lparr>code = INTERNAL, error_message = msg\<rparr>"

definition NotFound :: "string \<Rightarrow> Status" where
  "NotFound msg = \<lparr>code = NOT_FOUND, error_message = msg\<rparr>"

text \<open>Decimal printing of an integer, as \<^verbatim>\<open>StrCat\<close> does for an \<^verbatim>\<open>int64\<close> argument.\<close>

fun StrCat_nat :: "nat \<Rightarrow> string" where
  "StrCat_nat n =
     (if n < 10 then [''0123456789'' ! n]
      else StrCat_nat (n div 10) @ [''0123456789'' ! (n mod 10)])"

definition StrCat_int :: "int \<Rightarrow> string" where
  "StrCat_int i = (if i < 0 then CHR ''-'' # StrCat_nat (nat (- i)) else StrCat_nat (nat i))"

section \<open>Model specs built from a request path (http_rest_api_util.cc)\<close>

text \<open>
  \<^verbatim>\<open>ModelSpec\<close> is a protocol-buffer message whose declaration is not among the sources.
  Modelled from the spec: a name and a version selector that is exactly one of absent,
  an explicit integer version, or a string label (a \<^verbatim>\<open>oneof\<close>: setting one alternative
  replaces the other).
\<close>

datatype version_choice =
    VERSION_CHOICE_NOT_SET
  | version int
  | version_label string

record ModelSpec =
  spec_name :: string
  spec_version_choice :: version_choice
  spec_signature_name :: string

definition ModelSpec_default :: ModelSpec where
  "ModelSpec_default =
     \<lparr>spec_name = [], spec_version_choice = VERSION_CHOICE_NOT_SET, spec_signature_name = []\<rparr>"

text \<open>
  \<^verbatim>\<open>FillModelSpecWithNameVersionAndLabel\<close> writes through the pointer \<^verbatim>\<open>model_spec\<close> and
  returns a status; the model returns the status together with the message as the call
  leaves it. The name is set before the check, so it is set on the error path as well.
\<close>

definition FillModelSpecWithNameVersionAndLabel ::
  "string \<Rightarrow> int option \<Rightarrow> string option \<Rightarrow> ModelSpec \<Rightarrow> Status \<times> ModelSpec" where
  "FillModelSpecWithNameVersionAndLabel model_name model_version model_version_label model_spec =
     (let s0 = model_spec\<lparr>spec_name := model_name\<rparr> in
      if model_version \<noteq> None \<and> model_version_label \<noteq> None then
        (InvalidArgument
           (''Both model version ('' @ StrCat_int (the model_version) @
            '') and model version label ('' @ the model_version_label @
            '') cannot be supplied.''), s0)
      else
        (let s1 = (case model_version of
                     Some v \<Rightarrow> s0\<lparr>spec_version_choice := version v\<rparr>
                   | None \<Rightarrow> s0);
             s2 = (case model_version_label of
                     Some l \<Rightarrow> s1\<lparr>spec_version_choice := version_label l\<rparr>
                   | None \<Rightarrow> s1)
         in (Status_OK, s2)))"

section \<open>Deadlines (prediction_service_impl.cc and the gRPC support library)\<close>

text \<open>
  \<^verbatim>\<open>gpr_timespec\<close>, \<^verbatim>\<open>gpr_time_sub\<close> and \<^verbatim>\<open>gpr_time_to_millis\<close> belong to the gRPC support
  library, which is not part of this repository; they are written here after the library.
  A time is a number of seconds and a number of nanoseconds in \<open>[0, 10^9)\<close>; a negative
  time span has a negative \<open>tv_sec\<close> and a non-negative \<open>tv_nsec\<close> (-2.5 s is
  \<open>(-3, 5 * 10^8)\<close>). \<open>tv_sec\<close> is an \<^verbatim>\<open>int64\<close> whose extreme values stand for the
  infinite past and future. The clock type is left out: \<^verbatim>\<open>DeadlineToTimeoutMillis\<close>
  converts the deadline to the monotonic clock and reads the same clock, so both operands
  of the subtraction are on \<^verbatim>\<open>GPR_CLOCK_MONOTONIC\<close>, where
  \<^verbatim>\<open>gpr_convert_clock_type\<close> returns its argument. The reading of the clock,
  \<^verbatim>\<open>gpr_now(GPR_CLOCK_MONOTONIC)\<close>, is an input.
\<close>

record gpr_timespec =
  tv_sec :: int
  tv_nsec :: int

definition INT64_MAX :: int where
  "INT64_MAX = 9223372036854775807"

definition INT64_MIN :: int where
  "INT64_MIN = - 9223372036854775808"

definition GPR_MS_PER_SEC :: int where
  "GPR_MS_PER_SEC = 1000"

definition GPR_NS_PER_MS :: int where
  "GPR_NS_PER_MS = 1000000"

definition GPR_NS_PER_SEC :: int where
  "GPR_NS_PER_SEC = 1000000000"

definition gpr_inf_future :: gpr_timespec where
  "gpr_inf_future = \<lparr>tv_sec = INT64_MAX, tv_nsec = 0\<rparr>"

definition gpr_inf_past :: gpr_timespec where
  "gpr_inf_past = \<lparr>tv_sec = INT64_MIN, tv_nsec = 0\<rparr>"

definition gpr_time_sub :: "gpr_timespec \<Rightarrow> gpr_timespec \<Rightarrow> gpr_timespec" where
  "gpr_time_sub a b =
     (let nsec = tv_nsec a - tv_nsec b;
          dec = (if nsec < 0 then 1 else 0);
          nsec = (if nsec < 0 then nsec + GPR_NS_PER_SEC else nsec)
      in if tv_sec a = INT64_MAX \<or> tv_sec a = INT64_MIN then a
         else if tv_sec b = INT64_MIN \<or> (tv_sec b \<le> 0 \<and> tv_sec a \<ge> INT64_MAX + tv_sec b)
           then gpr_inf_future
         else if tv_sec b = INT64_MAX \<or> (tv_sec b \<ge> 0 \<and> tv_sec a \<le> INT64_MIN + tv_sec b)
           then gpr_inf_past
         else \<lparr>tv_sec = tv_sec a - tv_sec b - dec, tv_nsec = nsec\<rparr>)"

text \<open>C's integer division truncates towards zero; the cast to \<^verbatim>\<open>int32_t\<close> wraps.\<close>

definition c_div :: "int \<Rightarrow> int \<Rightarrow> int" where
  "c_div a b = (if (a < 0) = (b < 0) then \<bar>a\<bar> div \<bar>b\<bar> else - (\<bar>a\<bar> div \<bar>b\<bar>))"

definition to_int32 :: "int \<Rightarrow> int" where
  "to_int32 x = sint (word_of_int x :: 32 word)"

definition gpr_time_to_millis :: "gpr_timespec \<Rightarrow> int" where
  "gpr_time_to_millis t =
     (if tv_sec t \<ge> 2147483 then
        (if tv_sec t = 2147483 \<and> tv_nsec t < 648 * GPR_NS_PER_MS
         then 2147483 * GPR_MS_PER_SEC + c_div (tv_nsec t) GPR_NS_PER_MS
         else 2147483647)
      else if tv_sec t \<le> - 2147483 then - 2147483647
      else to_int32 (tv_sec t * GPR_MS_PER_SEC + c_div (tv_nsec t) GPR_NS_PER_MS))"

definition DeadlineToTimeoutMillis :: "gpr_timespec \<Rightarrow> gpr_timespec \<Rightarrow> int" where
  "DeadlineToTimeoutMillis deadline now = gpr_time_to_millis (gpr_time_sub deadline now)"

text \<open>The length of a time in nanoseconds, to state what the conversion computes.\<close>

definition nanos :: "gpr_timespec \<Rightarrow> int" where
  "nanos t = tv_sec t * 1000000000 + tv_nsec t"

definition normalised :: "gpr_timespec \<Rightarrow> bool" where
  "normalised t = (0 \<le> tv_nsec t \<and> tv_nsec t < 1000000000)"

section \<open>The request dispatcher (prediction_service_impl.cc)\<close>

text \<open>
  \<^verbatim>\<open>RunOptions\<close> carries the timeout of one execution; its default, 0, means no timeout.
\<close>

record RunOptions =
  timeout_in_ms :: int

definition RunOptions_default :: RunOptions where
  "RunOptions_default = \<lparr>timeout_in_ms = 0\<rparr>"

text \<open>Thread pools are named by a number.\<close>

record ThreadPoolFactory =
  GetInterOpThreadPool :: nat
  GetIntraOpThreadPool :: nat

record ThreadPoolOptions =
  inter_op_threadpool :: "nat option"
  intra_op_threadpool :: "nat option"

definition GetThreadPoolOptions :: "ThreadPoolFactory option \<Rightarrow> ThreadPoolOptions" where
  "GetThreadPoolOptions thread_pool_factory =
     (let thread_pool_options = \<lparr>inter_op_threadpool = None, intra_op_threadpool = None\<rparr>
      in case thread_pool_factory of
           Some f \<Rightarrow> thread_pool_options
                       \<lparr>inter_op_threadpool := Some (GetInterOpThreadPool f),
                        intra_op_threadpool := Some (GetIntraOpThreadPool f)\<rparr>
         | None \<Rightarrow> thread_pool_options)"

text \<open>
  A request is its model spec and a payload; a response is a payload. The five service
  operations behind the dispatcher (the predictor, the classification and regression
  services, the multi-inference helper and the metadata lookup, each run against the
  server core) are not among the sources: they are parameters, each giving the status and
  the response of a call.
\<close>

record Request =
  model_spec :: ModelSpec
  payload :: string

type_synonym Response = string

record ServerCore =
  predictor_Predict :: "RunOptions \<Rightarrow> Request \<Rightarrow> Status \<times> Response"
  TensorflowClassificationServiceImpl_Classify ::
    "RunOptions \<Rightarrow> ThreadPoolOptions \<Rightarrow> Request \<Rightarrow> Status \<times> Response"
  TensorflowRegressionServiceImpl_Regress ::
    "RunOptions \<Rightarrow> ThreadPoolOptions \<Rightarrow> Request \<Rightarrow> Status \<times> Response"
  RunMultiInferenceWithServerCore ::
    "RunOptions \<Rightarrow> ThreadPoolOptions \<Rightarrow> Request \<Rightarrow> Status \<times> Response"
  GetModelMetadataImpl_GetModelMetadata :: "Request \<Rightarrow> Status \<times> Response"

text \<open>
  The members \<^verbatim>\<open>core_\<close>, \<^verbatim>\<open>enforce_session_run_timeout_\<close> and
  \<^verbatim>\<open>thread_pool_factory_\<close> of the service object.
\<close>

record PredictionServiceImpl =
  core :: ServerCore
  enforce_session_run_timeout :: bool
  the_thread_pool_factory :: "ThreadPoolFactory option"

record ServerContext =
  raw_deadline :: gpr_timespec

text \<open>
  What a call leaves behind: the samples of the two metrics and the calls made to the
  service operations, oldest first.
\<close>

datatype backend_call =
    Predict_call RunOptions Request
  | Classify_call RunOptions ThreadPoolOptions Request
  | Regress_call RunOptions ThreadPoolOptions Request
  | MultiInference_call RunOptions ThreadPoolOptions Request
  | GetModelMetadata_call Request

record world =
  request_latency :: "(string \<times> string \<times> string \<times> 64 word) list"
  model_request_count :: "(string \<times> Code) list"
  backend_calls :: "backend_call list"

text \<open>
  Modelled from the spec: \<^verbatim>\<open>RecordRequestLatency\<close> and \<^verbatim>\<open>RecordModelRequestCount\<close>
  (declared in servables/tensorflow/util.h, not among the sources) hand one sample to the
  metrics sink, \<open>RecordLatency(modelName, operation, entryPoint, microseconds)\<close> and
  \<open>RecordRequestCount(modelName, outcomeClass)\<close>.
\<close>

definition RecordRequestLatency ::
  "string \<Rightarrow> string \<Rightarrow> string \<Rightarrow> 64 word \<Rightarrow> world \<Rightarrow> world" where
  "RecordRequestLatency model_name api entrypoint latency_usec w =
     w\<lparr>request_latency := request_latency w @ [(model_name, api, entrypoint, latency_usec)]\<rparr>"

definition RecordModelRequestCount :: "string \<Rightarrow> Status \<Rightarrow> world \<Rightarrow> world" where
  "RecordModelRequestCount model_name status w =
     w\<lparr>model_request_count := model_request_count w @ [(model_name, code status)]\<rparr>"

text \<open>
  Modelled from the spec: \<^verbatim>\<open>ToGRPCStatus\<close> (model_servers/grpc_status_util.h, not among
  the sources) maps the internal failure kind to a wire status, one to one, with the
  message text preserved.
\<close>

record grpc_Status =
  grpc_error_code :: Code
  grpc_error_message :: string

definition ToGRPCStatus :: "Status \<Rightarrow> grpc_Status" where
  "ToGRPCStatus status =
     \<lparr>grpc_error_code = code status, grpc_error_message = error_message status\<rparr>"

definition grpc_ok :: "grpc_Status \<Rightarrow> bool" where
  "grpc_ok s = (grpc_error_code s = OK)"

text \<open>
  The five operations. \<open>start\<close> and \<open>finish\<close> are the two readings of
  \<^verbatim>\<open>Env::Default()->NowMicros()\<close> (unsigned 64-bit), \<open>now\<close> the reading of the monotonic
  clock inside \<^verbatim>\<open>DeadlineToTimeoutMillis\<close>. Each returns the wire status, the response
  and the world after the call.
\<close>

definition Predict ::
  "PredictionServiceImpl \<Rightarrow> ServerContext \<Rightarrow> gpr_timespec \<Rightarrow> 64 word \<Rightarrow> 64 word \<Rightarrow>
   Request \<Rightarrow> world \<Rightarrow> grpc_Status \<times> Response \<times> world" where
  "Predict srv context now start finish request w =
     (let run_options = RunOptions_default;
          run_options =
            (if enforce_session_run_timeout srv
             then run_options\<lparr>timeout_in_ms :=
                                DeadlineToTimeoutMillis (raw_deadline context) now\<rparr>
             else run_options);
          (tf_status, response) = predictor_Predict (core srv) run_options request;
          w = w\<lparr>backend_calls := backend_calls w @ [Predict_call run_options request]\<rparr>;
          status = ToGRPCStatus tf_status;
          w = (if grpc_ok status
               then RecordRequestLatency (spec_name (model_spec request)) ''Predict'' ''GRPC''
                      (finish - start) w
               else w);
          w = RecordModelRequestCount (spec_name (model_spec request)) tf_status w
      in (status, response, w))"

definition GetModelMetadata ::
  "PredictionServiceImpl \<Rightarrow> ServerContext \<Rightarrow> Request \<Rightarrow> world \<Rightarrow>
   grpc_Status \<times> Response \<times> world" where
  "GetModelMetadata srv context request w =
     (let (tf_status, response) = GetModelMetadataImpl_GetModelMetadata (core srv) request;
          w = w\<lparr>backend_calls := backend_calls w @ [GetModelMetadata_call request]\<rparr>;
          status = ToGRPCStatus tf_status
      in (status, response, w))"

definition Classify ::
  "PredictionServiceImpl \<Rightarrow> ServerContext \<Rightarrow> gpr_timespec \<Rightarrow> 64 word \<Rightarrow> 64 word \<Rightarrow>
   Request \<Rightarrow> world \<Rightarrow> grpc_Status \<times> Response \<times> world" where
  "Classify srv context now start finish request w =
     (let run_options = RunOptions_default;
          run_options =
            (if enforce_session_run_timeout srv
             then run_options\<lparr>timeout_in_ms :=
                                DeadlineToTimeoutMillis (raw_deadline context) now\<rparr>
             else run_options);
          thread_pool_options = GetThreadPoolOptions (the_thread_pool_factory srv);
          (tf_status, response) =
            TensorflowClassificationServiceImpl_Classify (core srv)
              run_options thread_pool_options request;
          w = w\<lparr>backend_calls :=
                  backend_calls w @ [Classify_call run_options thread_pool_options request]\<rparr>;
          status = ToGRPCStatus tf_status;
          w = (if grpc_ok status
               then RecordRequestLatency (spec_name (model_spec request)) ''Classify'' ''GRPC''
                      (finish - start) w
               else w);
          w = RecordModelRequestCount (spec_name (model_spec request)) tf_status w
      in (status, response, w))"

definition Regress ::
  "PredictionServiceImpl \<Rightarrow> ServerContext \<Rightarrow> gpr_timespec \<Rightarrow> 64 word \<Rightarrow> 64 word \<Rightarrow>
   Request \<Rightarrow> world \<Rightarrow> grpc_Status \<times> Response \<times> world" where
  "Regress srv context now start finish request w =
     (let run_options = RunOptions_default;
          run_options =
            (if enforce_session_run_timeout srv
             then run_options\<lparr>timeout_in_ms :=
                                DeadlineToTimeoutMillis (raw_deadline context) now\<rparr>
             else run_options);
          thread_pool_options = GetThreadPoolOptions (the_thread_pool_factory srv);
          (tf_status, response) =
            TensorflowRegressionServiceImpl_Regress (core srv)
              run_options thread_pool_options request;
          w = w\<lparr>backend_calls :=
                  backend_calls w @ [Regress_call run_options thread_pool_options request]\<rparr>;
          status = ToGRPCStatus tf_status;
          w = (if grpc_ok status
               then RecordRequestLatency (spec_name (model_spec request)) ''Regress'' ''GRPC''
                      (finish - start) w
               else w);
          w = RecordModelRequestCount (spec_name (model_spec request)) tf_status w
      in (status, response, w))"

definition MultiInference ::
  "PredictionServiceImpl \<Rightarrow> ServerContext \<Rightarrow> gpr_timespec \<Rightarrow>
   Request \<Rightarrow> world \<Rightarrow> grpc_Status \<times> Response \<times> world" where
  "MultiInference srv context now request w =
     (let run_options = RunOptions_default;
          run_options =
            (if enforce_session_run_timeout srv
             then run_options\<lparr>timeout_in_ms :=
                                DeadlineToTimeoutMillis (raw_deadline context) now\<rparr>
             else run_options);
          thread_pool_options = GetThreadPoolOptions (the_thread_pool_factory srv);
          (tf_status, response) =
            RunMultiInferenceWithServerCore (core srv) run_options thread_pool_options request;
          w = w\<lparr>backend_calls :=
                  backend_calls w
                  @ [MultiInference_call run_options thread_pool_options request]\<rparr>;
          status = ToGRPCStatus tf_status
      in (status, response, w))"

text \<open>
  The timeout in the words of the specification, to compare with what the code computes:
  \<open>max(0, deadline - now)\<close> truncated to millisecond resolution.
\<close>

definition spec_timeout_millis :: "gpr_timespec \<Rightarrow> gpr_timespec \<Rightarrow> int" where
  "spec_timeout_millis deadline now = max 0 (nanos deadline - nanos now) div 1000000"

text \<open>Concrete inputs for the examples below.\<close>

definition core_example :: "Status \<Rightarrow> ServerCore" where
  "core_example st =
     \<lparr>predictor_Predict = (\<lambda>ro rq. (st, ''predicted'')),
      TensorflowClassificationServiceImpl_Classify = (\<lambda>ro tp rq. (st, ''classified'')),
      TensorflowRegressionServiceImpl_Regress = (\<lambda>ro tp rq. (st, ''regressed'')),
      RunMultiInferenceWithServerCore = (\<lambda>ro tp rq. (st, ''inferred'')),
      GetModelMetadataImpl_GetModelMetadata = (\<lambda>rq. (st, ''metadata''))\<rparr>"

definition srv_example :: "Status \<Rightarrow> bool \<Rightarrow> PredictionServiceImpl" where
  "srv_example st enforce =
     \<lparr>core = core_example st, enforce_session_run_timeout = enforce,
      the_thread_pool_factory = None\<rparr>"

definition request_example :: Request where
  "request_example = \<lparr>model_spec = ModelSpec_default\<lparr>spec_name := ''half_plus_two''\<rparr>,
                       payload = ''x''\<rparr>"

definition world_empty :: world where
  "world_empty = \<lparr>request_latency = [], model_request_count = [], backend_calls = []\<rparr>"

definition context_example :: "int \<Rightarrow> int \<Rightarrow> ServerContext" where
  "context_example s ns = \<lparr>raw_deadline = \<lparr>tv_sec = s, tv_nsec = ns\<rparr>\<rparr>"

section \<open>The model bundle factory (saved_model_bundle_factory.cc)\<close>

subsection \<open>Messages and sessions\<close>

text \<open>
  The protocol-buffer messages are declared outside the sources; they are records of the
  fields the factory touches. A protocol-buffer map is a list of key-value pairs in
  iteration order. The sub-messages of \<^verbatim>\<open>MetaGraphDef\<close> other than the signature map are
  kept in serialised form; the default message has every field empty.
\<close>

record TensorInfo =
  tensor_name :: string
  dtype :: string
  tensor_shape :: "int list"

record SignatureDef =
  inputs :: "(string \<times> TensorInfo) list"
  outputs :: "(string \<times> TensorInfo) list"
  method_name :: string

type_synonym SignatureDefMap = "(string \<times> SignatureDef) list"

record MetaGraphDef =
  meta_info_def :: string
  graph_def :: string
  saver_def :: string
  collection_def :: "(string \<times> string) list"
  signature_def :: SignatureDefMap
  asset_file_def :: "string list"
  object_graph_def :: string

definition MetaGraphDef_default :: MetaGraphDef where
  "MetaGraphDef_default =
     \<lparr>meta_info_def = [], graph_def = [], saver_def = [], collection_def = [],
      signature_def = [], asset_file_def = [], object_graph_def = []\<rparr>"

record BatchingParameters =
  max_batch_size :: int
  batch_timeout_micros :: int
  max_enqueued_batches :: int
  num_batch_threads :: int

record SessionBundleConfig =
  saved_model_tags :: "string list"
  prefer_tflite_model :: bool
  num_tflite_interpreters :: int
  remove_unused_fields_from_bundle_metagraph :: bool
  batching_parameters :: "BatchingParameters option"
  resource_estimation_uses_validation_result :: bool

definition has_batching_parameters :: "SessionBundleConfig \<Rightarrow> bool" where
  "has_batching_parameters config = (batching_parameters config \<noteq> None)"

record ServableId =
  servable_name :: string
  servable_version :: int

record Loader_Metadata =
  servable_id :: ServableId

record SessionOptions =
  target :: string
  session_metadata :: "(string \<times> int) option"

text \<open>
  A shared batch scheduler (\<^verbatim>\<open>std::shared_ptr<Batcher>\<close>) is named by a number: two
  references are to the same scheduler when the numbers are equal; the null pointer is
  \<open>None\<close>. A session is the backend that runs the model, possibly inside wrappers;
  \<open>NoSession\<close> is the null \<^verbatim>\<open>unique_ptr\<close>.
\<close>

type_synonym Batcher = nat

datatype Session =
    NoSession
  | TfLiteSession string int
  | SavedModelSession nat
  | BatchingSession BatchingParameters Batcher "SignatureDef list" Session
  | ServingSessionWrapper Session

record SavedModelBundle =
  session :: Session
  meta_graph_def :: MetaGraphDef

definition SavedModelBundle_new :: SavedModelBundle where
  "SavedModelBundle_new = \<lparr>session = NoSession, meta_graph_def = MetaGraphDef_default\<rparr>"

text \<open>The backend of a session: what is left when the wrappers are taken off.\<close>

primrec backend :: "Session \<Rightarrow> Session" where
  "backend NoSession = NoSession"
| "backend (TfLiteSession b n) = TfLiteSession b n"
| "backend (SavedModelSession h) = SavedModelSession h"
| "backend (BatchingSession p b sigs s) = backend s"
| "backend (ServingSessionWrapper s) = backend s"

subsection \<open>Collaborators\<close>

text \<open>
  What the factory calls outside the sources: the file system behind \<^verbatim>\<open>Env::Default()\<close>
  (a map from file names to contents), the parser of the lightweight format, the
  full-engine loader, the construction of the batch scheduler and the helpers of
  bundle_factory_util. They are parameters.
\<close>

record environment =
  files :: "string \<rightharpoonup> string"
  tflite_signatures :: "string \<Rightarrow> SignatureDefMap option"
  load_full_engine ::
    "SessionOptions \<Rightarrow> RunOptions \<Rightarrow> string \<Rightarrow> string set \<Rightarrow> Status + nat \<times> MetaGraphDef"
  CreateBatchScheduler :: "BatchingParameters \<Rightarrow> Status + Batcher"
  WrapSessionForBatching_status :: "BatchingParameters \<Rightarrow> SignatureDef list \<Rightarrow> Status"
  GetSessionOptions :: "SessionBundleConfig \<Rightarrow> SessionOptions"
  GetRunOptions :: "SessionBundleConfig \<Rightarrow> RunOptions"

text \<open>The constructions of a backend that a load attempts, oldest first.\<close>

datatype load_call =
    TfLiteSession_Create_call string int
  | LoadSessionBundleOrSavedModelBundle_call SessionOptions RunOptions string "string set"

definition kTfLiteModelFilename :: string where
  "kTfLiteModelFilename = ''model.tflite''"

definition kSavedModelTagServe :: string where
  "kSavedModelTagServe = ''serve''"

text \<open>
  \<^verbatim>\<open>io::JoinPath\<close> with a second part that does not start with a slash, and the file
  operations of the platform layer: a file that is missing is not found, and a read of
  more bytes than the file has is out of range.
\<close>

definition JoinPath :: "string \<Rightarrow> string \<Rightarrow> string" where
  "JoinPath a b =
     (if a = [] then b else if last a = CHR ''/'' then a @ b else a @ ''/'' @ b)"

definition GetFileSize :: "environment \<Rightarrow> string \<Rightarrow> Status + nat" where
  "GetFileSize env fname =
     (case files env fname of None \<Rightarrow> Inl (NotFound fname) | Some c \<Rightarrow> Inr (length c))"

definition NewRandomAccessFile :: "environment \<Rightarrow> string \<Rightarrow> Status + string" where
  "NewRandomAccessFile env fname =
     (case files env fname of None \<Rightarrow> Inl (NotFound fname) | Some c \<Rightarrow> Inr c)"

definition Read :: "string \<Rightarrow> nat \<Rightarrow> nat \<Rightarrow> Status + string" where
  "Read file offset n =
     (if offset + n \<le> length file then Inr (take n (drop offset file))
      else Inl \<lparr>code = OUT_OF_RANGE, error_message = ''eof''\<rparr>)"

definition FilesExist :: "environment \<Rightarrow> string list \<Rightarrow> bool" where
  "FilesExist env fnames = list_all (\<lambda>f. files env f \<noteq> None) fnames"

text \<open>
  Modelled from the spec: \<^verbatim>\<open>TfLiteSession::Create\<close> (tflite_session.cc is not among the
  sources; its test is). It builds the lightweight backend with the given number of
  interpreter replicas directly from the serialised bytes, extracting the embedded
  signature map: the caller's map holds exactly the extracted signatures afterwards. A
  malformed artifact is an invalid argument. The result is the session and the map as
  the call leaves it; a creation that fails is taken to leave the map as it was.
\<close>

definition TfLiteSession_Create ::
  "environment \<Rightarrow> string \<Rightarrow> SignatureDefMap \<Rightarrow> int \<Rightarrow> Status + Session \<times> SignatureDefMap" where
  "TfLiteSession_Create env buffer signatures num_interpreters =
     (case tflite_signatures env buffer of
        None \<Rightarrow> Inl (InvalidArgument ''Cannot build FlatBufferModel from buffer.'')
      | Some extracted \<Rightarrow> Inr (TfLiteSession buffer num_interpreters, extracted))"

text \<open>
  The loading functions return a status and write the bundle through a pointer. The
  result of the model is \<open>Inr\<close> of the bundle when the status is OK, and \<open>Inl\<close> of the
  error status together with the bundle as the call leaves it behind the pointer
  otherwise. \<open>returned_status\<close> and \<open>bundle_left\<close> read the two off a result.
\<close>

definition returned_status :: "Status \<times> 'a + 'a \<Rightarrow> Status" where
  "returned_status r = (case r of Inl (e, left) \<Rightarrow> e | Inr b \<Rightarrow> Status_OK)"

definition bundle_left :: "Status \<times> 'a + 'a \<Rightarrow> 'a" where
  "bundle_left r = (case r of Inl (e, left) \<Rightarrow> left | Inr b \<Rightarrow> b)"

text \<open>
  Modelled from the spec: \<^verbatim>\<open>session_bundle::LoadSessionBundleOrSavedModelBundle\<close>
  (session_bundle_util, not among the sources) loads the full-engine backend by tag match;
  on success it fills the bundle with the session and the metadata of the matching graph
  variant. The outcome of the load is the parameter \<open>load_full_engine\<close>. A load that
  fails is taken to leave the bundle as it was.
\<close>

definition LoadSessionBundleOrSavedModelBundle ::
  "environment \<Rightarrow> SessionOptions \<Rightarrow> RunOptions \<Rightarrow> string \<Rightarrow> string set \<Rightarrow> SavedModelBundle \<Rightarrow>
   (Status \<times> SavedModelBundle + SavedModelBundle) \<times> load_call list" where
  "LoadSessionBundleOrSavedModelBundle env session_options run_options path tags bundle =
     (case load_full_engine env session_options run_options path tags of
        Inl e \<Rightarrow> Inl (e, bundle)
      | Inr (handle, mg) \<Rightarrow> Inr (bundle\<lparr>session := SavedModelSession handle, meta_graph_def := mg\<rparr>),
      [LoadSessionBundleOrSavedModelBundle_call session_options run_options path tags])"

text \<open>
  Modelled from the spec: \<^verbatim>\<open>WrapSessionForBatching\<close> and \<^verbatim>\<open>WrapSession\<close>
  (bundle_factory_util, not among the sources). The first wraps the backend in a batching
  adapter bound to the scheduler and the signature set, and may refuse (the parameter
  \<open>WrapSessionForBatching_status\<close>); the second wraps it in a pass-through adapter.
\<close>

definition WrapSessionForBatching ::
  "environment \<Rightarrow> BatchingParameters \<Rightarrow> Batcher \<Rightarrow> SignatureDef list \<Rightarrow> Session \<Rightarrow>
   Status + Session" where
  "WrapSessionForBatching env batching_config batch_scheduler signatures s =
     (if ok (WrapSessionForBatching_status env batching_config signatures)
      then Inr (BatchingSession batching_config batch_scheduler signatures s)
      else Inl (WrapSessionForBatching_status env batching_config signatures))"

definition WrapSession :: "Session \<Rightarrow> Status + Session" where
  "WrapSession s = Inr (ServingSessionWrapper s)"

subsection \<open>The factory\<close>

definition GetSignatureDefs :: "SavedModelBundle \<Rightarrow> SignatureDef list" where
  "GetSignatureDefs bundle = map snd (signature_def (meta_graph_def bundle))"

definition LoadTfLiteModel ::
  "environment \<Rightarrow> string \<Rightarrow> SavedModelBundle \<Rightarrow> int \<Rightarrow>
   (Status \<times> SavedModelBundle + SavedModelBundle) \<times> load_call list" where
  "LoadTfLiteModel env model_dir bundle num_interpreters =
     (let fname = JoinPath model_dir kTfLiteModelFilename in
      case GetFileSize env fname of
        Inl e \<Rightarrow> (Inl (e, bundle), [])
      | Inr file_size \<Rightarrow>
      (case NewRandomAccessFile env fname of
        Inl e \<Rightarrow> (Inl (e, bundle), [])
      | Inr file \<Rightarrow>
      (case Read file 0 file_size of
        Inl e \<Rightarrow> (Inl (e, bundle), [])
      | Inr model_bytes \<Rightarrow>
      (case TfLiteSession_Create env model_bytes (signature_def (meta_graph_def bundle))
              num_interpreters of
        Inl e \<Rightarrow> (Inl (e, bundle), [TfLiteSession_Create_call model_bytes num_interpreters])
      | Inr (tflite_session, signatures) \<Rightarrow>
          (Inr (bundle\<lparr>session := tflite_session,
                       meta_graph_def := (meta_graph_def bundle)\<lparr>signature_def := signatures\<rparr>\<rparr>),
           [TfLiteSession_Create_call model_bytes num_interpreters])))))"

definition TfLiteModelFound :: "environment \<Rightarrow> string \<Rightarrow> bool" where
  "TfLiteModelFound env model_dir =
     (let fname = JoinPath model_dir kTfLiteModelFilename in FilesExist env [fname])"

text \<open>
  The members \<^verbatim>\<open>config_\<close> and \<^verbatim>\<open>batch_scheduler_\<close> of the factory, and its constructor.
\<close>

record SavedModelBundleFactory =
  the_config :: SessionBundleConfig
  the_batch_scheduler :: "Batcher option"

definition Create :: "environment \<Rightarrow> SessionBundleConfig \<Rightarrow> Status + SavedModelBundleFactory" where
  "Create env config =
     (case batching_parameters config of
        Some p \<Rightarrow>
          (case CreateBatchScheduler env p of
             Inl e \<Rightarrow> Inl e
           | Inr batcher \<Rightarrow> Inr \<lparr>the_config = config, the_batch_scheduler = Some batcher\<rparr>)
      | None \<Rightarrow> Inr \<lparr>the_config = config, the_batch_scheduler = None\<rparr>)"

text \<open>
  \<^verbatim>\<open>InternalCreateSavedModelBundle\<close> in two parts. The first runs up to and including the
  choice of the backend: the fresh bundle, the active tags, the session options and the
  load. The result is the bundle as the load leaves it, or the error of the load with
  the bundle behind the pointer.
\<close>

definition load_backend ::
  "SavedModelBundleFactory \<Rightarrow> environment \<Rightarrow> Loader_Metadata option \<Rightarrow> string \<Rightarrow>
   (Status \<times> SavedModelBundle + SavedModelBundle) \<times> load_call list" where
  "load_backend factory env metadata path =
     (let bundle = SavedModelBundle_new;
          tags = set (saved_model_tags (the_config factory));
          tags = (if tags = {} then insert kSavedModelTagServe tags else tags);
          session_options =
            (let result = GetSessionOptions env (the_config factory) in
             case metadata of
               Some m \<Rightarrow> result\<lparr>session_metadata :=
                                   Some (servable_name (servable_id m),
                                         servable_version (servable_id m))\<rparr>
             | None \<Rightarrow> result)
      in if prefer_tflite_model (the_config factory) \<and> TfLiteModelFound env path
         then LoadTfLiteModel env path bundle (num_tflite_interpreters (the_config factory))
         else LoadSessionBundleOrSavedModelBundle env session_options
                (GetRunOptions env (the_config factory)) path tags bundle)"

text \<open>
  The second part trims the metadata (two swaps with a fresh message) and wraps the
  session. The pointer is reset to a fresh bundle at the start and never cleared: on
  every error return it still holds the bundle as built so far. In particular the return
  for a missing scheduler comes after the load and the trimming and before any wrapping.
  A wrapping that fails is taken to leave the session as it was.
\<close>

definition InternalCreateSavedModelBundle ::
  "SavedModelBundleFactory \<Rightarrow> environment \<Rightarrow> Loader_Metadata option \<Rightarrow> string \<Rightarrow>
   (Status \<times> SavedModelBundle + SavedModelBundle) \<times> load_call list" where
  "InternalCreateSavedModelBundle factory env metadata path =
     (case load_backend factory env metadata path of
        (Inl (e, left), calls) \<Rightarrow> (Inl (e, left), calls)
      | (Inr bundle, calls) \<Rightarrow>
          (let bundle =
                 (if remove_unused_fields_from_bundle_metagraph (the_config factory) then
                    (let metagraph = MetaGraphDef_default;
                         (swapped, metagraph) = (metagraph, meta_graph_def bundle);
                         (swapped, metagraph) =
                           (swapped\<lparr>signature_def := signature_def metagraph\<rparr>,
                            metagraph\<lparr>signature_def := signature_def swapped\<rparr>)
                     in bundle\<lparr>meta_graph_def := swapped\<rparr>)
                  else bundle)
           in if has_batching_parameters (the_config factory) then
                (case the_batch_scheduler factory of
                   None \<Rightarrow> (Inl (Internal ''batch_scheduler_ not set'', bundle), calls)
                 | Some batch_scheduler \<Rightarrow>
                     (let signatures = GetSignatureDefs bundle in
                      case WrapSessionForBatching env
                             (the (batching_parameters (the_config factory)))
                             batch_scheduler signatures (session bundle) of
                        Inl e \<Rightarrow> (Inl (e, bundle), calls)
                      | Inr s \<Rightarrow> (Inr (bundle\<lparr>session := s\<rparr>), calls)))
              else
                (case WrapSession (session bundle) of
                   Inl e \<Rightarrow> (Inl (e, bundle), calls)
                 | Inr s \<Rightarrow> (Inr (bundle\<lparr>session := s\<rparr>), calls))))"

definition CreateSavedModelBundleWithMetadata ::
  "SavedModelBundleFactory \<Rightarrow> environment \<Rightarrow> Loader_Metadata \<Rightarrow> string \<Rightarrow>
   (Status \<times> SavedModelBundle + SavedModelBundle) \<times> load_call list" where
  "CreateSavedModelBundleWithMetadata factory env metadata path =
     InternalCreateSavedModelBundle factory env (Some metadata) path"

definition CreateSavedModelBundle ::
  "SavedModelBundleFactory \<Rightarrow> environment \<Rightarrow> string \<Rightarrow>
   (Status \<times> SavedModelBundle + SavedModelBundle) \<times> load_call list" where
  "CreateSavedModelBundle factory env path =
     InternalCreateSavedModelBundle factory env None path"

text \<open>
  Concrete inputs for the examples below: a directory that holds only a lightweight-format
  file whose one signature is \<open>serving_default\<close>, with input \<open>x\<close> and output \<open>y\<close>; a
  directory that holds a full-engine model with the tag \<open>serve\<close>; and configurations.
\<close>

definition signature_example :: SignatureDef where
  "signature_example =
     \<lparr>inputs = [(''x'', \<lparr>tensor_name = ''x'', dtype = ''DT_FLOAT'', tensor_shape = [1, 1]\<rparr>)],
      outputs = [(''y'', \<lparr>tensor_name = ''y'', dtype = ''DT_FLOAT'', tensor_shape = [1, 1]\<rparr>)],
      method_name = ''tensorflow/serving/predict''\<rparr>"

definition metagraph_example :: MetaGraphDef where
  "metagraph_example =
     \<lparr>meta_info_def = ''tags: serve'', graph_def = ''node { name: a }'', saver_def = ''v2'',
      collection_def = [], signature_def = [(''regress_x_to_y'', signature_example)],
      asset_file_def = [], object_graph_def = []\<rparr>"

definition env_example :: environment where
  "env_example =
     \<lparr>files = [''/models/lite/123/model.tflite'' \<mapsto> ''TFL3''],
      tflite_signatures =
        (\<lambda>b. if b = ''TFL3'' then Some [(''serving_default'', signature_example)] else None),
      load_full_engine =
        (\<lambda>so ro path tags.
           if path = ''/models/full/7'' \<and> tags = {''serve''} then Inr (7, metagraph_example)
           else Inl (NotFound path)),
      CreateBatchScheduler = (\<lambda>p. Inr 1),
      WrapSessionForBatching_status = (\<lambda>p sigs. Status_OK),
      GetSessionOptions = (\<lambda>c. \<lparr>target = [], session_metadata = None\<rparr>),
      GetRunOptions = (\<lambda>c. RunOptions_default)\<rparr>"

definition config_example :: SessionBundleConfig where
  "config_example =
     \<lparr>saved_model_tags = [], prefer_tflite_model = False, num_tflite_interpreters = 1,
      remove_unused_fields_from_bundle_metagraph = False, batching_parameters = None,
      resource_estimation_uses_validation_result = False\<rparr>"

definition batching_example :: BatchingParameters where
  "batching_example =
     \<lparr>max_batch_size = 2, batch_timeout_micros = 50000, max_enqueued_batches = 10,
      num_batch_threads = 1\<rparr>"

definition factory_no_scheduler :: SavedModelBundleFactory where
  "factory_no_scheduler =
     \<lparr>the_config = config_example\<lparr>batching_parameters := Some batching_example\<rparr>,
      the_batch_scheduler = None\<rparr>"

definition factory_example :: "SessionBundleConfig \<Rightarrow> SavedModelBundleFactory" where
  "factory_example config = \<lparr>the_config = config, the_batch_scheduler = None\<rparr>"

section \<open>Properties\<close>

subsection \<open>Model specs\<close>

text \<open>
  C5. Supplying both an explicit numeric version and a version label yields an
  InvalidArgument error, whatever the name and the previous content of the model spec;
  when at most one of the two is supplied, the call succeeds and the spec carries the
  given name and the supplied selector.
\<close>

theorem FillModelSpec_exclusive:
  "(model_version \<noteq> None \<and> model_version_label \<noteq> None \<longrightarrow>
      code (fst (FillModelSpecWithNameVersionAndLabel
                   model_name model_version model_version_label old_spec)) = INVALID_ARGUMENT)
   \<and> (\<not> (model_version \<noteq> None \<and> model_version_label \<noteq> None) \<longrightarrow>
      (case FillModelSpecWithNameVersionAndLabel
              model_name model_version model_version_label old_spec of
         (st, s) \<Rightarrow>
           st = Status_OK \<and> spec_name s = model_name
           \<and> spec_signature_name s = spec_signature_name old_spec
           \<and> (\<forall>v. model_version = Some v \<longrightarrow> spec_version_choice s = version v)
           \<and> (\<forall>l. model_version_label = Some l \<longrightarrow> spec_version_choice s = version_label l)
           \<and> (model_version = None \<and> model_version_label = None \<longrightarrow>
                spec_version_choice s = spec_version_choice old_spec)))"
  by (auto simp: FillModelSpecWithNameVersionAndLabel_def InvalidArgument_def Let_def
           split: option.splits)

theorem FillModelSpec_exclusive_witness:
  "fst (FillModelSpecWithNameVersionAndLabel ''m'' (Some 3) (Some ''stable'') ModelSpec_default)
     = \<lparr>code = INVALID_ARGUMENT,
        error_message =
          ''Both model version (3) and model version label (stable) cannot be supplied.''\<rparr>
   \<and> FillModelSpecWithNameVersionAndLabel ''m'' (Some 3) None ModelSpec_default
     = (Status_OK, \<lparr>spec_name = ''m'', spec_version_choice = version 3,
                    spec_signature_name = []\<rparr>)
   \<and> FillModelSpecWithNameVersionAndLabel ''m'' None (Some ''canary'') ModelSpec_default
     = (Status_OK, \<lparr>spec_name = ''m'', spec_version_choice = version_label ''canary'',
                    spec_signature_name = []\<rparr>)"
  using FillModelSpec_exclusive [of "Some 3" "Some ''stable''" "''m''" ModelSpec_default]
        FillModelSpec_exclusive [of "Some 3" None "''m''" ModelSpec_default]
        FillModelSpec_exclusive [of None "Some ''canary''" "''m''" ModelSpec_default]
  by (simp add: FillModelSpecWithNameVersionAndLabel_def InvalidArgument_def Let_def
                ModelSpec_default_def StrCat_int_def)

subsection \<open>The request dispatcher\<close>

lemma to_int32_id: "- 2147483648 \<le> x \<Longrightarrow> x < 2147483648 \<Longrightarrow> to_int32 x = x"
  unfolding to_int32_def
  by (simp add: sint_sbintrunc' signed_take_bit_int_eq_self)

lemma c_div_nonneg: "0 \<le> a \<Longrightarrow> 0 < b \<Longrightarrow> c_div a b = a div b"
  by (simp add: c_div_def)

lemma millis_of_parts:
  fixes D N :: int
  shows "(D * 1000000000 + N) div 1000000 = D * 1000 + N div 1000000"
proof -
  have "D * 1000000000 + N = N + (D * 1000) * 1000000" by simp
  then have "(D * 1000000000 + N) div 1000000 = (N + (D * 1000) * 1000000) div 1000000"
    by (rule arg_cong)
  also have "\<dots> = D * 1000 + N div 1000000"
    by simp
  finally show ?thesis .
qed

lemma gpr_time_to_millis_ordinary:
  assumes "- 2147483 < D" "D < 2147483" "0 \<le> N" "N < 1000000000"
  shows "gpr_time_to_millis \<lparr>tv_sec = D, tv_nsec = N\<rparr> = (D * 1000000000 + N) div 1000000"
proof -
  have q: "0 \<le> N div 1000000" "N div 1000000 < 1000"
    using assms by (simp_all add: div_less_iff_less_mult pos_imp_zdiv_nonneg_iff)
  have "gpr_time_to_millis \<lparr>tv_sec = D, tv_nsec = N\<rparr> = to_int32 (D * 1000 + N div 1000000)"
    using assms
    by (simp add: gpr_time_to_millis_def GPR_MS_PER_SEC_def GPR_NS_PER_MS_def c_div_nonneg)
  also have "\<dots> = D * 1000 + N div 1000000"
    using assms q by (intro to_int32_id) linarith+
  finally show ?thesis by (simp add: millis_of_parts)
qed

lemma gpr_time_sub_ordinary:
  assumes "normalised a" "normalised b"
    and "INT64_MIN < tv_sec a" "tv_sec a < INT64_MAX"
    and "0 \<le> tv_sec b" "tv_sec b < INT64_MAX"
    and "INT64_MIN < tv_sec a - tv_sec b"
  shows "\<exists>D N. gpr_time_sub a b = \<lparr>tv_sec = D, tv_nsec = N\<rparr> \<and> 0 \<le> N \<and> N < 1000000000
               \<and> D * 1000000000 + N = nanos a - nanos b"
  using assms
  by (auto simp: gpr_time_sub_def Let_def normalised_def nanos_def GPR_NS_PER_SEC_def
                 INT64_MAX_def INT64_MIN_def)

lemma DeadlineToTimeoutMillis_ordinary:
  assumes "normalised deadline" "normalised now"
    and "INT64_MIN < tv_sec deadline" "tv_sec deadline < INT64_MAX"
    and "0 \<le> tv_sec now" "tv_sec now < INT64_MAX"
    and "- 2147482 * 1000000000 \<le> nanos deadline - nanos now"
    and "nanos deadline - nanos now < 2147483 * 1000000000"
  shows "DeadlineToTimeoutMillis deadline now = (nanos deadline - nanos now) div 1000000"
proof -
  have "INT64_MIN < tv_sec deadline - tv_sec now"
    using assms by (simp add: nanos_def normalised_def INT64_MIN_def)
  with assms obtain D N where sub: "gpr_time_sub deadline now = \<lparr>tv_sec = D, tv_nsec = N\<rparr>"
    and N: "0 \<le> N" "N < 1000000000"
    and DN: "D * 1000000000 + N = nanos deadline - nanos now"
    using gpr_time_sub_ordinary [of deadline now] by blast
  have "- 2147483 < D" "D < 2147483"
    using assms(7,8) N DN by linarith+
  then show ?thesis
    using N DN by (simp add: DeadlineToTimeoutMillis_def sub gpr_time_to_millis_ordinary)
qed

text \<open>
  C2 (as amended). For Predict, Classify, Regress and MultiInference, the run options handed
  to the service operation carry, when the session timeout is enforced, the difference
  between the deadline and the monotonic clock rounded down to whole milliseconds, for a
  finite deadline at most 2147482 seconds before and less than 2147483 seconds after the
  clock's reading; the difference is not clamped at 0. When the timeout is not enforced the
  run options are the default ones (timeout 0, no timeout). GetModelMetadata hands over no
  run options.
\<close>

theorem dispatcher_timeout:
  assumes "normalised (raw_deadline ctx)" "normalised now"
    and "INT64_MIN < tv_sec (raw_deadline ctx)" "tv_sec (raw_deadline ctx) < INT64_MAX"
    and "0 \<le> tv_sec now" "tv_sec now < INT64_MAX"
    and "- 2147482 * 1000000000 \<le> nanos (raw_deadline ctx) - nanos now"
    and "nanos (raw_deadline ctx) - nanos now < 2147483 * 1000000000"
  shows "(let run_options =
            \<lparr>timeout_in_ms = (if enforce_session_run_timeout srv
                               then (nanos (raw_deadline ctx) - nanos now) div 1000000
                               else 0)\<rparr>;
              tp = GetThreadPoolOptions (the_thread_pool_factory srv)
          in backend_calls (snd (snd (Predict srv ctx now start finish request w)))
               = backend_calls w @ [Predict_call run_options request]
           \<and> backend_calls (snd (snd (Classify srv ctx now start finish request w)))
               = backend_calls w @ [Classify_call run_options tp request]
           \<and> backend_calls (snd (snd (Regress srv ctx now start finish request w)))
               = backend_calls w @ [Regress_call run_options tp request]
           \<and> backend_calls (snd (snd (MultiInference srv ctx now request w)))
               = backend_calls w @ [MultiInference_call run_options tp request]
           \<and> backend_calls (snd (snd (GetModelMetadata srv ctx request w)))
               = backend_calls w @ [GetModelMetadata_call request])"
  using DeadlineToTimeoutMillis_ordinary [OF assms]
  by (simp add: Predict_def Classify_def Regress_def MultiInference_def GetModelMetadata_def
        Let_def RunOptions_default_def RecordRequestLatency_def RecordModelRequestCount_def
        split: prod.splits)

theorem dispatcher_timeout_witness:
  "normalised (raw_deadline (context_example 20 500000000))
   \<and> normalised \<lparr>tv_sec = 11, tv_nsec = 250000000\<rparr>
   \<and> backend_calls (snd (snd (Predict (srv_example Status_OK True)
         (context_example 20 500000000) \<lparr>tv_sec = 11, tv_nsec = 250000000\<rparr> 0 0
         request_example world_empty)))
       = [Predict_call \<lparr>timeout_in_ms = 9250\<rparr> request_example]
   \<and> backend_calls (snd (snd (MultiInference (srv_example Status_OK False)
         (context_example 20 500000000) \<lparr>tv_sec = 11, tv_nsec = 250000000\<rparr>
         request_example world_empty)))
       = [MultiInference_call \<lparr>timeout_in_ms = 0\<rparr>
            \<lparr>inter_op_threadpool = None, intra_op_threadpool = None\<rparr> request_example]"
  using dispatcher_timeout [where ctx = "context_example 20 500000000"
          and now = "\<lparr>tv_sec = 11, tv_nsec = 250000000\<rparr>"
          and srv = "srv_example Status_OK True" and start = 0 and finish = 0
          and request = request_example and w = world_empty]
        dispatcher_timeout [where ctx = "context_example 20 500000000"
          and now = "\<lparr>tv_sec = 11, tv_nsec = 250000000\<rparr>"
          and srv = "srv_example Status_OK False" and start = 0 and finish = 0
          and request = request_example and w = world_empty]
  by (simp add: normalised_def context_example_def nanos_def INT64_MAX_def INT64_MIN_def
        srv_example_def world_empty_def GetThreadPoolOptions_def Let_def)

text \<open>
  C2 as stated fails: with the deadline one second in the past, Predict hands the backend
  a timeout of -1000 ms, where the stated formula gives 0.
\<close>

theorem dispatcher_timeout_counterexample:
  "backend_calls (snd (snd (Predict (srv_example Status_OK True) (context_example 10 0)
                               \<lparr>tv_sec = 11, tv_nsec = 0\<rparr> 0 0 request_example world_empty)))
     = [Predict_call \<lparr>timeout_in_ms = - 1000\<rparr> request_example]
   \<and> spec_timeout_millis (raw_deadline (context_example 10 0)) \<lparr>tv_sec = 11, tv_nsec = 0\<rparr> = 0"
  by (simp add: Predict_def srv_example_def core_example_def context_example_def
        world_empty_def Let_def RunOptions_default_def RecordRequestLatency_def
        RecordModelRequestCount_def DeadlineToTimeoutMillis_def gpr_time_sub_def
        gpr_time_to_millis_def INT64_MAX_def INT64_MIN_def GPR_MS_PER_SEC_def GPR_NS_PER_MS_def
        GPR_NS_PER_SEC_def c_div_def to_int32_def spec_timeout_millis_def nanos_def
        ToGRPCStatus_def grpc_ok_def Status_OK_def)

text \<open>
  C1 (as amended). Predict, Classify and Regress record exactly one latency sample when the
  call succeeds and none when it fails, and exactly one request-count sample in both
  cases. MultiInference and GetModelMetadata record no sample of either kind.
\<close>

theorem dispatcher_metrics:
  "(case Predict srv ctx now start finish request w of (status, response, w') \<Rightarrow>
      request_latency w' = request_latency w
        @ (if grpc_ok status
           then [(spec_name (model_spec request), ''Predict'', ''GRPC'', finish - start)] else [])
      \<and> model_request_count w' = model_request_count w
        @ [(spec_name (model_spec request), grpc_error_code status)])
   \<and> (case Classify srv ctx now start finish request w of (status, response, w') \<Rightarrow>
      request_latency w' = request_latency w
        @ (if grpc_ok status
           then [(spec_name (model_spec request), ''Classify'', ''GRPC'', finish - start)] else [])
      \<and> model_request_count w' = model_request_count w
        @ [(spec_name (model_spec request), grpc_error_code status)])
   \<and> (case Regress srv ctx now start finish request w of (status, response, w') \<Rightarrow>
      request_latency w' = request_latency w
        @ (if grpc_ok status
           then [(spec_name (model_spec request), ''Regress'', ''GRPC'', finish - start)] else [])
      \<and> model_request_count w' = model_request_count w
        @ [(spec_name (model_spec request), grpc_error_code status)])
   \<and> (case MultiInference srv ctx now request w of (status, response, w') \<Rightarrow>
      request_latency w' = request_latency w \<and> model_request_count w' = model_request_count w)
   \<and> (case GetModelMetadata srv ctx request w of (status, response, w') \<Rightarrow>
      request_latency w' = request_latency w \<and> model_request_count w' = model_request_count w)"
  by (simp add: Predict_def Classify_def Regress_def MultiInference_def GetModelMetadata_def
        Let_def RecordRequestLatency_def RecordModelRequestCount_def ToGRPCStatus_def
        split: prod.splits)

theorem dispatcher_metrics_witness:
  "(case Predict (srv_example Status_OK False) (context_example 20 0)
           \<lparr>tv_sec = 11, tv_nsec = 0\<rparr> 100 350 request_example world_empty of
      (status, response, w') \<Rightarrow>
        grpc_ok status
        \<and> request_latency w' = [(''half_plus_two'', ''Predict'', ''GRPC'', 250)]
        \<and> model_request_count w' = [(''half_plus_two'', OK)])
   \<and> (case Regress (srv_example (NotFound ''no such model'') False) (context_example 20 0)
           \<lparr>tv_sec = 11, tv_nsec = 0\<rparr> 100 350 request_example world_empty of
      (status, response, w') \<Rightarrow>
        \<not> grpc_ok status
        \<and> request_latency w' = []
        \<and> model_request_count w' = [(''half_plus_two'', NOT_FOUND)])"
  using dispatcher_metrics [where srv = "srv_example Status_OK False"
          and ctx = "context_example 20 0" and now = "\<lparr>tv_sec = 11, tv_nsec = 0\<rparr>"
          and start = 100 and finish = 350 and request = request_example and w = world_empty]
        dispatcher_metrics [where srv = "srv_example (NotFound ''no such model'') False"
          and ctx = "context_example 20 0" and now = "\<lparr>tv_sec = 11, tv_nsec = 0\<rparr>"
          and start = 100 and finish = 350 and request = request_example and w = world_empty]
  by (simp add: Predict_def Regress_def Let_def srv_example_def core_example_def
        world_empty_def request_example_def ModelSpec_default_def ToGRPCStatus_def grpc_ok_def
        Status_OK_def NotFound_def RecordRequestLatency_def RecordModelRequestCount_def
        split: prod.splits)

text \<open>
  C1 as stated fails: a successful MultiInference call records neither a latency sample
  nor a request-count sample.
\<close>

theorem dispatcher_metrics_counterexample:
  "grpc_ok (fst (MultiInference (srv_example Status_OK False) (context_example 10 0)
                   \<lparr>tv_sec = 5, tv_nsec = 0\<rparr> request_example world_empty))
   \<and> request_latency (snd (snd (MultiInference (srv_example Status_OK False)
        (context_example 10 0) \<lparr>tv_sec = 5, tv_nsec = 0\<rparr> request_example world_empty))) = []
   \<and> model_request_count (snd (snd (MultiInference (srv_example Status_OK False)
        (context_example 10 0) \<lparr>tv_sec = 5, tv_nsec = 0\<rparr> request_example world_empty))) = []"
  by (simp add: MultiInference_def srv_example_def core_example_def world_empty_def Let_def
        ToGRPCStatus_def grpc_ok_def Status_OK_def)

subsection \<open>The model bundle factory\<close>

lemma InternalCreate_calls:
  "snd (InternalCreateSavedModelBundle factory env metadata path)
     = snd (load_backend factory env metadata path)"
  by (simp add: InternalCreateSavedModelBundle_def WrapSession_def Let_def
           split: prod.splits sum.splits option.splits)

lemma TfLiteModelFound_file:
  "TfLiteModelFound env path \<longleftrightarrow> (\<exists>bytes. files env (JoinPath path ''model.tflite'') = Some bytes)"
  by (auto simp: TfLiteModelFound_def FilesExist_def kTfLiteModelFilename_def Let_def)

lemma LoadTfLiteModel_file:
  assumes "files env (JoinPath path ''model.tflite'') = Some bytes"
  shows "LoadTfLiteModel env path bundle n =
           (case tflite_signatures env bytes of
              None \<Rightarrow> Inl (InvalidArgument ''Cannot build FlatBufferModel from buffer.'', bundle)
            | Some sigs \<Rightarrow>
                Inr (bundle\<lparr>session := TfLiteSession bytes n,
                            meta_graph_def := (meta_graph_def bundle)\<lparr>signature_def := sigs\<rparr>\<rparr>),
            [TfLiteSession_Create_call bytes n])"
  using assms
  by (simp add: LoadTfLiteModel_def kTfLiteModelFilename_def GetFileSize_def
        NewRandomAccessFile_def Read_def TfLiteSession_Create_def Let_def split: option.splits)

lemmas factory_defs =
  InternalCreateSavedModelBundle_def load_backend_def LoadTfLiteModel_def TfLiteModelFound_def
  LoadSessionBundleOrSavedModelBundle_def TfLiteSession_Create_def WrapSession_def
  WrapSessionForBatching_def GetSignatureDefs_def has_batching_parameters_def Create_def
  FilesExist_def GetFileSize_def NewRandomAccessFile_def Read_def JoinPath_def
  kTfLiteModelFilename_def kSavedModelTagServe_def SavedModelBundle_new_def
  MetaGraphDef_default_def Status_OK_def ok_def NotFound_def Internal_def InvalidArgument_def
  RunOptions_default_def Let_def

lemmas example_defs =
  env_example_def config_example_def batching_example_def factory_no_scheduler_def
  factory_example_def metagraph_example_def

text \<open>
  C8. When a load takes the full-engine path, the tag set handed to the full-engine loader
  is the set of the configured saved-model tags when any are given, and the single tag
  \<open>serve\<close> when the configured list is empty.
\<close>

theorem active_tags:
  assumes "\<not> (prefer_tflite_model (the_config factory) \<and> TfLiteModelFound env path)"
  shows "\<exists>session_options.
           snd (InternalCreateSavedModelBundle factory env metadata path) =
             [LoadSessionBundleOrSavedModelBundle_call session_options
                (GetRunOptions env (the_config factory)) path
                (if saved_model_tags (the_config factory) = [] then {''serve''}
                 else set (saved_model_tags (the_config factory)))]"
  using assms
  by (auto simp: InternalCreate_calls load_backend_def LoadSessionBundleOrSavedModelBundle_def
        kSavedModelTagServe_def Let_def)

theorem active_tags_witness:
  "\<not> (prefer_tflite_model (the_config (factory_example config_example))
        \<and> TfLiteModelFound env_example ''/models/full/7'')
   \<and> snd (InternalCreateSavedModelBundle (factory_example config_example) env_example None
            ''/models/full/7'')
       = [LoadSessionBundleOrSavedModelBundle_call \<lparr>target = [], session_metadata = None\<rparr>
            \<lparr>timeout_in_ms = 0\<rparr> ''/models/full/7'' {''serve''}]
   \<and> snd (InternalCreateSavedModelBundle
            (factory_example (config_example\<lparr>saved_model_tags := [''serve'', ''gpu'']\<rparr>))
            env_example None ''/models/full/7'')
       = [LoadSessionBundleOrSavedModelBundle_call \<lparr>target = [], session_metadata = None\<rparr>
            \<lparr>timeout_in_ms = 0\<rparr> ''/models/full/7'' {''serve'', ''gpu''}]"
  using active_tags [where factory = "factory_example config_example" and env = env_example
          and path = "''/models/full/7''" and metadata = None]
  by (simp add: factory_defs example_defs)

text \<open>
  C4. Backend selection is exclusive. If the configuration prefers the lightweight format
  and the file \<open>model.tflite\<close> exists under the artifact path, the only backend
  constructed is the lightweight one, from the bytes of that file and with the configured
  number of interpreters, and it is the backend of the bundle returned. Otherwise the
  only backend constructed is the full-engine one, loaded for the path and the tags, and
  it is the backend of the bundle returned.
\<close>

theorem backend_exclusive:
  "(prefer_tflite_model (the_config factory) \<and> TfLiteModelFound env path \<longrightarrow>
      (\<exists>bytes. files env (JoinPath path ''model.tflite'') = Some bytes
         \<and> snd (InternalCreateSavedModelBundle factory env metadata path)
             = [TfLiteSession_Create_call bytes (num_tflite_interpreters (the_config factory))]
         \<and> (\<forall>b. fst (InternalCreateSavedModelBundle factory env metadata path) = Inr b \<longrightarrow>
               backend (session b)
                 = TfLiteSession bytes (num_tflite_interpreters (the_config factory)))))
   \<and> (\<not> (prefer_tflite_model (the_config factory) \<and> TfLiteModelFound env path) \<longrightarrow>
      (\<exists>session_options run_options tags.
         snd (InternalCreateSavedModelBundle factory env metadata path)
           = [LoadSessionBundleOrSavedModelBundle_call session_options run_options path tags]
         \<and> (\<forall>b. fst (InternalCreateSavedModelBundle factory env metadata path) = Inr b \<longrightarrow>
               (\<exists>handle mg. load_full_engine env session_options run_options path tags
                               = Inr (handle, mg)
                           \<and> backend (session b) = SavedModelSession handle))))"
proof (intro conjI impI)
  assume tfl: "prefer_tflite_model (the_config factory) \<and> TfLiteModelFound env path"
  then obtain bytes where f: "files env (JoinPath path ''model.tflite'') = Some bytes"
    by (auto simp: TfLiteModelFound_file)
  have lb: "load_backend factory env metadata path
              = LoadTfLiteModel env path SavedModelBundle_new
                  (num_tflite_interpreters (the_config factory))"
    using tfl by (simp add: load_backend_def Let_def)
  have calls: "snd (InternalCreateSavedModelBundle factory env metadata path)
             = [TfLiteSession_Create_call bytes (num_tflite_interpreters (the_config factory))]"
    by (simp add: InternalCreate_calls lb LoadTfLiteModel_file [OF f])
  have "\<forall>b. fst (InternalCreateSavedModelBundle factory env metadata path) = Inr b \<longrightarrow>
               backend (session b)
                 = TfLiteSession bytes (num_tflite_interpreters (the_config factory))"
    by (auto simp: InternalCreateSavedModelBundle_def lb LoadTfLiteModel_file [OF f]
          WrapSession_def WrapSessionForBatching_def Let_def
          split: option.splits sum.splits if_splits)
  with f calls
  show "\<exists>bytes. files env (JoinPath path ''model.tflite'') = Some bytes
         \<and> snd (InternalCreateSavedModelBundle factory env metadata path)
             = [TfLiteSession_Create_call bytes (num_tflite_interpreters (the_config factory))]
         \<and> (\<forall>b. fst (InternalCreateSavedModelBundle factory env metadata path) = Inr b \<longrightarrow>
               backend (session b)
                 = TfLiteSession bytes (num_tflite_interpreters (the_config factory)))"
    by blast
next
  assume full: "\<not> (prefer_tflite_model (the_config factory) \<and> TfLiteModelFound env path)"
  then obtain so ro tags where
    lb: "load_backend factory env metadata path
           = LoadSessionBundleOrSavedModelBundle env so ro path tags SavedModelBundle_new"
    by (simp add: load_backend_def Let_def)
  have calls: "snd (InternalCreateSavedModelBundle factory env metadata path)
           = [LoadSessionBundleOrSavedModelBundle_call so ro path tags]"
    by (simp add: InternalCreate_calls lb LoadSessionBundleOrSavedModelBundle_def)
  have "\<forall>b. fst (InternalCreateSavedModelBundle factory env metadata path) = Inr b \<longrightarrow>
               (\<exists>handle mg. load_full_engine env so ro path tags = Inr (handle, mg)
                           \<and> backend (session b) = SavedModelSession handle)"
    by (auto simp: InternalCreateSavedModelBundle_def lb LoadSessionBundleOrSavedModelBundle_def
          WrapSession_def WrapSessionForBatching_def Let_def
          split: option.splits sum.splits if_splits prod.splits)
  with calls
  show "\<exists>session_options run_options tags.
         snd (InternalCreateSavedModelBundle factory env metadata path)
           = [LoadSessionBundleOrSavedModelBundle_call session_options run_options path tags]
         \<and> (\<forall>b. fst (InternalCreateSavedModelBundle factory env metadata path) = Inr b \<longrightarrow>
               (\<exists>handle mg. load_full_engine env session_options run_options path tags
                               = Inr (handle, mg)
                           \<and> backend (session b) = SavedModelSession handle))"
    by blast
qed

theorem backend_exclusive_witness:
  "prefer_tflite_model (the_config (factory_example (config_example\<lparr>prefer_tflite_model := True\<rparr>)))
   \<and> TfLiteModelFound env_example ''/models/lite/123''
   \<and> InternalCreateSavedModelBundle
        (factory_example (config_example\<lparr>prefer_tflite_model := True\<rparr>)) env_example None
        ''/models/lite/123''
       = (Inr \<lparr>session = ServingSessionWrapper (TfLiteSession ''TFL3'' 1),
               meta_graph_def =
                 MetaGraphDef_default\<lparr>signature_def := [(''serving_default'', signature_example)]\<rparr>\<rparr>,
          [TfLiteSession_Create_call ''TFL3'' 1])
   \<and> \<not> TfLiteModelFound env_example ''/models/full/7''
   \<and> InternalCreateSavedModelBundle
        (factory_example (config_example\<lparr>prefer_tflite_model := True\<rparr>)) env_example None
        ''/models/full/7''
       = (Inr \<lparr>session = ServingSessionWrapper (SavedModelSession 7),
               meta_graph_def = metagraph_example\<rparr>,
          [LoadSessionBundleOrSavedModelBundle_call \<lparr>target = [], session_metadata = None\<rparr>
             \<lparr>timeout_in_ms = 0\<rparr> ''/models/full/7'' {''serve''}])"
  using backend_exclusive [where factory = "factory_example (config_example\<lparr>prefer_tflite_model := True\<rparr>)"
          and env = env_example and path = "''/models/lite/123''" and metadata = None]
  by (simp add: factory_defs example_defs)

text \<open>
  C6. After a successful load with the strip-metadata flag, the metadata of the bundle is
  the empty message with the signature-definition section of the loaded metadata; without
  the flag it is the loaded metadata, unchanged.
\<close>

theorem metadata_trimming:
  assumes "fst (InternalCreateSavedModelBundle factory env metadata path) = Inr b"
  shows "\<exists>b0. fst (load_backend factory env metadata path) = Inr b0
           \<and> meta_graph_def b =
               (if remove_unused_fields_from_bundle_metagraph (the_config factory)
                then MetaGraphDef_default\<lparr>signature_def := signature_def (meta_graph_def b0)\<rparr>
                else meta_graph_def b0)"
  using assms
  by (auto simp: InternalCreateSavedModelBundle_def WrapSession_def WrapSessionForBatching_def
        Let_def split: prod.splits sum.splits option.splits if_splits)

theorem metadata_trimming_witness:
  "InternalCreateSavedModelBundle
     (factory_example (config_example\<lparr>remove_unused_fields_from_bundle_metagraph := True\<rparr>))
     env_example None ''/models/full/7''
     = (Inr \<lparr>session = ServingSessionWrapper (SavedModelSession 7),
             meta_graph_def =
               MetaGraphDef_default\<lparr>signature_def := [(''regress_x_to_y'', signature_example)]\<rparr>\<rparr>,
        [LoadSessionBundleOrSavedModelBundle_call \<lparr>target = [], session_metadata = None\<rparr>
           \<lparr>timeout_in_ms = 0\<rparr> ''/models/full/7'' {''serve''}])
   \<and> fst (load_backend
            (factory_example (config_example\<lparr>remove_unused_fields_from_bundle_metagraph := True\<rparr>))
            env_example None ''/models/full/7'')
       = Inr \<lparr>session = SavedModelSession 7, meta_graph_def = metagraph_example\<rparr>
   \<and> meta_graph_def (projr (fst (InternalCreateSavedModelBundle (factory_example config_example)
        env_example None ''/models/full/7''))) = metagraph_example"
  using metadata_trimming [where factory =
          "factory_example (config_example\<lparr>remove_unused_fields_from_bundle_metagraph := True\<rparr>)"
          and env = env_example and path = "''/models/full/7''" and metadata = None]
  by (simp add: factory_defs example_defs)

text \<open>
  C3 (as amended). When the configuration includes batching parameters and the factory
  has no scheduler, every load fails: with the error of the backend loading when that
  loading failed, and with the Internal error when it succeeded. The caller's bundle
  pointer is not cleared on that failure: after the Internal error it holds the loaded
  bundle, its metadata trimmed if so configured and its session not wrapped. A factory
  that \<open>Create\<close> builds for a configuration with batching parameters holds the scheduler
  constructed there, and every successful load of a factory that holds a scheduler wraps
  the session in a batching session bound to that same scheduler.
\<close>

theorem batching_needs_scheduler:
  "(has_batching_parameters (the_config factory) \<and> the_batch_scheduler factory = None \<longrightarrow>
      (case fst (load_backend factory env metadata path) of
         Inl failed \<Rightarrow>
           fst (InternalCreateSavedModelBundle factory env metadata path) = Inl failed
       | Inr b0 \<Rightarrow>
           fst (InternalCreateSavedModelBundle factory env metadata path)
             = Inl (Internal ''batch_scheduler_ not set'',
                    b0\<lparr>meta_graph_def :=
                         (if remove_unused_fields_from_bundle_metagraph (the_config factory)
                          then MetaGraphDef_default
                                 \<lparr>signature_def := signature_def (meta_graph_def b0)\<rparr>
                          else meta_graph_def b0)\<rparr>)))
   \<and> (\<forall>p f. batching_parameters config = Some p \<and> Create env config = Inr f \<longrightarrow>
        the_config f = config
        \<and> CreateBatchScheduler env p = Inr (the (the_batch_scheduler f))
        \<and> the_batch_scheduler f \<noteq> None)
   \<and> (\<forall>p s b. batching_parameters (the_config factory) = Some p
        \<and> the_batch_scheduler factory = Some s
        \<and> fst (InternalCreateSavedModelBundle factory env metadata path) = Inr b \<longrightarrow>
        (\<exists>inner. session b = BatchingSession p s (GetSignatureDefs b) inner))"
  by (auto simp: InternalCreateSavedModelBundle_def WrapSession_def WrapSessionForBatching_def
        has_batching_parameters_def Create_def GetSignatureDefs_def Let_def
        split: prod.splits sum.splits option.splits if_splits)

theorem batching_needs_scheduler_witness:
  "has_batching_parameters (the_config factory_no_scheduler)
   \<and> the_batch_scheduler factory_no_scheduler = None
   \<and> fst (load_backend factory_no_scheduler env_example None ''/models/full/7'')
       = Inr \<lparr>session = SavedModelSession 7, meta_graph_def = metagraph_example\<rparr>
   \<and> returned_status
         (fst (InternalCreateSavedModelBundle factory_no_scheduler env_example None
                 ''/models/full/7''))
       = \<lparr>code = INTERNAL, error_message = ''batch_scheduler_ not set''\<rparr>
   \<and> bundle_left
         (fst (InternalCreateSavedModelBundle factory_no_scheduler env_example None
                 ''/models/full/7''))
       = \<lparr>session = SavedModelSession 7, meta_graph_def = metagraph_example\<rparr>
   \<and> Create env_example (config_example\<lparr>batching_parameters := Some batching_example\<rparr>)
       = Inr \<lparr>the_config = config_example\<lparr>batching_parameters := Some batching_example\<rparr>,
              the_batch_scheduler = Some 1\<rparr>
   \<and> fst (InternalCreateSavedModelBundle
            \<lparr>the_config = config_example\<lparr>batching_parameters := Some batching_example\<rparr>,
             the_batch_scheduler = Some 1\<rparr> env_example None ''/models/full/7'')
       = Inr \<lparr>session = BatchingSession batching_example 1 [signature_example]
                          (SavedModelSession 7),
              meta_graph_def = metagraph_example\<rparr>"
  using batching_needs_scheduler [where factory = factory_no_scheduler and env = env_example
          and path = "''/models/full/7''" and metadata = None
          and config = "config_example\<lparr>batching_parameters := Some batching_example\<rparr>"]
  by (simp add: factory_defs example_defs returned_status_def bundle_left_def)

text \<open>
  C3 as stated fails on both counts. With batching parameters, no scheduler and an
  artifact path that holds no model, the load fails with the loader's NotFound error,
  not with Internal. With an artifact path that holds a model, the load fails with
  Internal and leaves the loaded bundle behind the caller's pointer.
\<close>

theorem batching_needs_scheduler_counterexample:
  "has_batching_parameters (the_config factory_no_scheduler)
   \<and> the_batch_scheduler factory_no_scheduler = None
   \<and> returned_status
         (fst (InternalCreateSavedModelBundle factory_no_scheduler env_example None
                 ''/models/missing''))
       = \<lparr>code = NOT_FOUND, error_message = ''/models/missing''\<rparr>
   \<and> returned_status
         (fst (InternalCreateSavedModelBundle factory_no_scheduler env_example None
                 ''/models/full/7''))
       = \<lparr>code = INTERNAL, error_message = ''batch_scheduler_ not set''\<rparr>
   \<and> bundle_left
         (fst (InternalCreateSavedModelBundle factory_no_scheduler env_example None
                 ''/models/full/7''))
       = \<lparr>session = SavedModelSession 7, meta_graph_def = metagraph_example\<rparr>"
  by (simp add: factory_defs example_defs returned_status_def bundle_left_def)

text \<open>
  C7. When the configuration prefers the lightweight format and the artifact path holds a
  lightweight-format file at the well-known name, the bundle a load returns has the
  lightweight session built from that file as its backend, and its signature map is
  exactly the map of the signatures embedded in the file. The example is the literal
  case: one signature \<open>serving_default\<close> with one input \<open>x\<close> and one output \<open>y\<close>.
\<close>

theorem lightweight_signatures:
  assumes "prefer_tflite_model (the_config factory)"
    and "files env (JoinPath path ''model.tflite'') = Some bytes"
    and "fst (InternalCreateSavedModelBundle factory env metadata path) = Inr b"
  shows "backend (session b) = TfLiteSession bytes (num_tflite_interpreters (the_config factory))
         \<and> tflite_signatures env bytes = Some (signature_def (meta_graph_def b))"
proof -
  have found: "TfLiteModelFound env path"
    using assms(2) by (simp add: TfLiteModelFound_file)
  have lb: "load_backend factory env metadata path
              = LoadTfLiteModel env path SavedModelBundle_new
                  (num_tflite_interpreters (the_config factory))"
    using assms(1) found by (simp add: load_backend_def Let_def)
  show ?thesis
    using assms(3)
    by (auto simp: InternalCreateSavedModelBundle_def lb LoadTfLiteModel_file [OF assms(2)]
          WrapSession_def WrapSessionForBatching_def Let_def SavedModelBundle_new_def
          split: option.splits sum.splits if_splits)
qed

theorem lightweight_signatures_witness:
  "prefer_tflite_model (the_config (factory_example (config_example\<lparr>prefer_tflite_model := True\<rparr>)))
   \<and> files env_example (JoinPath ''/models/lite/123'' ''model.tflite'') = Some ''TFL3''
   \<and> fst (InternalCreateSavedModelBundle
            (factory_example (config_example\<lparr>prefer_tflite_model := True\<rparr>)) env_example None
            ''/models/lite/123'')
       = Inr \<lparr>session = ServingSessionWrapper (TfLiteSession ''TFL3'' 1),
              meta_graph_def =
                MetaGraphDef_default\<lparr>signature_def :=
                  [(''serving_default'',
                    \<lparr>inputs = [(''x'', \<lparr>tensor_name = ''x'', dtype = ''DT_FLOAT'',
                                        tensor_shape = [1, 1]\<rparr>)],
                     outputs = [(''y'', \<lparr>tensor_name = ''y'', dtype = ''DT_FLOAT'',
                                         tensor_shape = [1, 1]\<rparr>)],
                     method_name = ''tensorflow/serving/predict''\<rparr>)]\<rparr>\<rparr>"
  using lightweight_signatures [where factory =
          "factory_example (config_example\<lparr>prefer_tflite_model := True\<rparr>)"
          and env = env_example and path = "''/models/lite/123''" and metadata = None
          and bytes = "''TFL3''"]
  by (simp add: factory_defs example_defs signature_example_def)

end
